theory Spec2Isabelle
  imports Complex_Main "HOL-Library.Word" "HOL-Library.Multiset"
begin

unbundle bit_operations_syntax

section \<open>The stopwatch (timer.cpp)\<close>

text \<open>
  The C++ class \<^verbatim>\<open>Timer\<close> holds two \<^verbatim>\<open>double\<close> members, \<^verbatim>\<open>m_start\<close> and
  \<^verbatim>\<open>m_stop\<close>. A \<^verbatim>\<open>double\<close> is modelled as a \<^typ>\<open>real\<close>: the rounding of IEEE
  arithmetic is not part of the model. \<^verbatim>\<open>gettimeofday\<close> is the clock of the operating
  system; what it stores into \<^verbatim>\<open>tv\<close> is passed to the operations that read it.
\<close>

record timeval =
  tv_sec :: int
  tv_usec :: int

record Timer =
  m_start :: real
  m_stop :: real

text \<open>\<^verbatim>\<open>Timer::Timer() : m_start(0.0), m_stop(0.0) {}\<close>\<close>

definition Timer_new :: Timer where
  "Timer_new = \<lparr>m_start = 0, m_stop = 0\<rparr>"

text \<open>\<^verbatim>\<open>return (double)tv.tv_sec + (double)tv.tv_usec * 1.e-6;\<close>\<close>

definition now :: "timeval \<Rightarrow> real" where
  "now tv = real_of_int (tv_sec tv) + real_of_int (tv_usec tv) * (1 / 1000000)"

text \<open>\<^verbatim>\<open>m_start = now();\<close>\<close>

definition start :: "timeval \<Rightarrow> Timer \<Rightarrow> Timer" where
  "start tv t = t\<lparr>m_start := now tv\<rparr>"

text \<open>\<^verbatim>\<open>m_stop = now();\<close>\<close>

definition stop :: "timeval \<Rightarrow> Timer \<Rightarrow> Timer" where
  "stop tv t = t\<lparr>m_stop := now tv\<rparr>"

text \<open>\<^verbatim>\<open>return m_stop - m_start;\<close>\<close>

definition elapsed :: "Timer \<Rightarrow> real" where
  "elapsed t = m_stop t - m_start t"

text \<open>
  A sequence of calls on one stopwatch, each with the clock reading it obtains.
\<close>

datatype timer_call = Start timeval | Stop timeval

fun apply_call :: "timer_call \<Rightarrow> Timer \<Rightarrow> Timer" where
  "apply_call (Start tv) t = start tv t"
| "apply_call (Stop tv) t = stop tv t"

fun timer_calls :: "timer_call list \<Rightarrow> Timer \<Rightarrow> Timer" where
  "timer_calls [] t = t"
| "timer_calls (c # cs) t = timer_calls cs (apply_call c t)"

text \<open>The reading of the last \<^verbatim>\<open>start()\<close> (respectively \<^verbatim>\<open>stop()\<close>) of a sequence.\<close>

fun last_start :: "timer_call list \<Rightarrow> timeval option" where
  "last_start [] = None"
| "last_start (Start tv # cs) = (case last_start cs of None \<Rightarrow> Some tv | Some tv' \<Rightarrow> Some tv')"
| "last_start (Stop tv # cs) = last_start cs"

fun last_stop :: "timer_call list \<Rightarrow> timeval option" where
  "last_stop [] = None"
| "last_stop (Stop tv # cs) = (case last_stop cs of None \<Rightarrow> Some tv | Some tv' \<Rightarrow> Some tv')"
| "last_stop (Start tv # cs) = last_stop cs"

section \<open>The compute API as seen by the driver (opencl_example.cpp)\<close>

text \<open>
  \<^verbatim>\<open>add_opencl\<close> is a straight line of calls into the OpenCL API, which is not code of
  this program. The API is a parameter of the model: a \<open>platform\<close> gives, for every entry
  point, what the call returns after a given history of calls (\<^verbatim>\<open>clEnqueueReadBuffer\<close>
  is also handed the host elements it is about to overwrite, and returns the elements
  it stores in their place). The history (\<open>trace\<close>) is
  the list of the calls made so far, oldest first, each with its arguments and with what
  it returned. Nothing is assumed about a platform.

  \<^item> \<^verbatim>\<open>cl_int\<close> is a 32-bit integer (\<^verbatim>\<open>CL_SUCCESS\<close> is 0);
  \<^item> \<^verbatim>\<open>cl_device_id\<close>, \<^verbatim>\<open>cl_context\<close>, \<^verbatim>\<open>cl_command_queue\<close>, \<^verbatim>\<open>cl_program\<close>,
    \<^verbatim>\<open>cl_kernel\<close> and \<^verbatim>\<open>cl_mem\<close> are opaque pointers: a \<open>handle\<close>, with 0 for the
    null pointer;
  \<^item> \<^verbatim>\<open>size_t\<close> is unsigned and 64 bits wide: a \<^typ>\<open>nat\<close> with the wrap-around
    \<open>mod 2 ^ 64\<close> written out;
  \<^item> a host array (\<^verbatim>\<open>int*\<close>) is the 32-bit values found from the pointer on, by
    index. The three arrays of a call are separate allocations, as in \<^verbatim>\<open>main\<close>, and
    \<^verbatim>\<open>int\<close> addition wraps around.
\<close>

type_synonym cl_int = "32 word"
type_synonym handle = nat
type_synonym host_array = "nat \<Rightarrow> 32 word"

abbreviation CL_SUCCESS :: cl_int where
  "CL_SUCCESS \<equiv> 0"

abbreviation NULL :: handle where
  "NULL \<equiv> 0"

datatype device_type = CL_DEVICE_TYPE_CPU | CL_DEVICE_TYPE_GPU

datatype mem_flags = CL_MEM_READ_ONLY | CL_MEM_WRITE_ONLY

text \<open>
  One constructor for each call the program makes, with its arguments first and what the
  call returned last. \<open>ReadSourceFile\<close> is the \<^verbatim>\<open>std::ifstream\<close> read of the kernel source
  (file name, content) and \<open>Gettimeofday\<close> the clock read inside \<^verbatim>\<open>Timer::now\<close>.
  The transfers carry the byte count and the \<^verbatim>\<open>int\<close> elements moved.
\<close>

datatype event =
    GetDeviceIDs device_type cl_int handle
  | CreateContext handle handle cl_int
  | CreateCommandQueue handle handle handle cl_int
  | ReadSourceFile string string
  | CreateProgramWithSource handle string handle cl_int
  | BuildProgram handle cl_int
  | CreateKernel handle string handle cl_int
  | CreateBuffer handle mem_flags nat handle
  | EnqueueWriteBuffer handle handle nat "32 word list" cl_int
  | SetKernelArg handle nat handle cl_int
  | GetKernelWorkGroupInfo handle handle cl_int nat
  | Gettimeofday timeval
  | EnqueueNDRangeKernel handle handle nat nat cl_int
  | Finish handle cl_int
  | EnqueueReadBuffer handle handle nat cl_int "32 word list"
  | ReleaseMemObject handle cl_int
  | ReleaseProgram handle cl_int
  | ReleaseKernel handle cl_int
  | ReleaseCommandQueue handle cl_int
  | ReleaseContext handle cl_int

type_synonym trace = "event list"

record platform =
  clGetDeviceIDs :: "trace \<Rightarrow> device_type \<Rightarrow> cl_int \<times> handle"
  clCreateContext :: "trace \<Rightarrow> handle \<Rightarrow> handle \<times> cl_int"
  clCreateCommandQueue :: "trace \<Rightarrow> handle \<Rightarrow> handle \<Rightarrow> handle \<times> cl_int"
  read_source_file :: "trace \<Rightarrow> string \<Rightarrow> string"
  clCreateProgramWithSource :: "trace \<Rightarrow> handle \<Rightarrow> string \<Rightarrow> handle \<times> cl_int"
  clBuildProgram :: "trace \<Rightarrow> handle \<Rightarrow> cl_int"
  clCreateKernel :: "trace \<Rightarrow> handle \<Rightarrow> string \<Rightarrow> handle \<times> cl_int"
  clCreateBuffer :: "trace \<Rightarrow> handle \<Rightarrow> mem_flags \<Rightarrow> nat \<Rightarrow> handle"
  clEnqueueWriteBuffer :: "trace \<Rightarrow> handle \<Rightarrow> handle \<Rightarrow> nat \<Rightarrow> 32 word list \<Rightarrow> cl_int"
  clSetKernelArg :: "trace \<Rightarrow> handle \<Rightarrow> nat \<Rightarrow> handle \<Rightarrow> cl_int"
  clGetKernelWorkGroupInfo :: "trace \<Rightarrow> handle \<Rightarrow> handle \<Rightarrow> cl_int \<times> nat"
  gettimeofday :: "trace \<Rightarrow> timeval"
  clEnqueueNDRangeKernel :: "trace \<Rightarrow> handle \<Rightarrow> handle \<Rightarrow> nat \<Rightarrow> nat \<Rightarrow> cl_int"
  clFinish :: "trace \<Rightarrow> handle \<Rightarrow> cl_int"
  clEnqueueReadBuffer ::
    "trace \<Rightarrow> handle \<Rightarrow> handle \<Rightarrow> nat \<Rightarrow> 32 word list \<Rightarrow> cl_int \<times> (nat \<Rightarrow> 32 word)"
  clReleaseMemObject :: "trace \<Rightarrow> handle \<Rightarrow> cl_int"
  clReleaseProgram :: "trace \<Rightarrow> handle \<Rightarrow> cl_int"
  clReleaseKernel :: "trace \<Rightarrow> handle \<Rightarrow> cl_int"
  clReleaseCommandQueue :: "trace \<Rightarrow> handle \<Rightarrow> cl_int"
  clReleaseContext :: "trace \<Rightarrow> handle \<Rightarrow> cl_int"

section \<open>add\_opencl\<close>

text \<open>\<^verbatim>\<open>throw std::runtime_error(what)\<close>\<close>

datatype failure = Runtime_error string

text \<open>
  What a call of \<^verbatim>\<open>add_opencl\<close> leaves behind: the value it returned or the exception
  it threw, the caller's output array \<^verbatim>\<open>c_host\<close>, and the calls it made.
\<close>

record run =
  outcome :: "failure + real"
  c_host_out :: host_array
  calls :: trace

definition throw :: "string \<Rightarrow> host_array \<Rightarrow> trace \<Rightarrow> run" where
  "throw what c tr = \<lparr>outcome = Inl (Runtime_error what), c_host_out = c, calls = tr\<rparr>"

text \<open>The conversion of an \<^verbatim>\<open>int\<close> to \<^verbatim>\<open>size_t\<close>, and \<^verbatim>\<open>sizeof(int) * N\<close>.\<close>

definition size_t_of_int :: "int \<Rightarrow> nat" where
  "size_t_of_int i = nat (i mod 2 ^ 64)"

definition sizeof_int :: nat where
  "sizeof_int = 4"

definition buffer_bytes :: "32 word \<Rightarrow> nat" where
  "buffer_bytes N = (sizeof_int * size_t_of_int (sint N)) mod 2 ^ 64"

text \<open>The \<^verbatim>\<open>int\<close> elements in a transfer of that many bytes, read from a host array.\<close>

definition host_region :: "host_array \<Rightarrow> nat \<Rightarrow> 32 word list" where
  "host_region xs bytes = map xs [0..<bytes div sizeof_int]"

text \<open>A transfer of that many bytes into a host array.\<close>

definition copy_to_host :: "host_array \<Rightarrow> nat \<Rightarrow> (nat \<Rightarrow> 32 word) \<Rightarrow> host_array" where
  "copy_to_host xs bytes device = (\<lambda>i. if i < bytes div sizeof_int then device i else xs i)"

text \<open>
  \<^verbatim>\<open>for (size_t i = 0; i < N; i++) if (c_host[i] != a_host[i] + b_host[i]) throw ...\<close>
  with \<open>n\<close> the bound \<^verbatim>\<open>N\<close> as a \<^verbatim>\<open>size_t\<close>. \<open>None\<close>: the loop ran to its end.
\<close>

function validation_loop ::
  "host_array \<Rightarrow> host_array \<Rightarrow> host_array \<Rightarrow> nat \<Rightarrow> nat \<Rightarrow> failure option" where
  "validation_loop c_host a_host b_host i n =
     (if i < n then
        (if c_host i \<noteq> a_host i + b_host i then Some (Runtime_error ''Result validation failed'')
         else validation_loop c_host a_host b_host (Suc i) n)
      else None)"
  by pat_completeness auto
termination
  by (relation "measure (\<lambda>(c_host, a_host, b_host, i, n). n - i)") auto

declare validation_loop.simps [simp del]

text \<open>
  The procedure is one C++ function, a straight line of calls, each followed by its
  check. The model cuts it after every check: a definition makes the calls up to the
  next \<^verbatim>\<open>throw\<close>, and hands the local variables that are still needed and the trace
  to the definition of the statements that follow. They are listed last statement
  first; \<open>add_opencl\<close> itself, at the end of the section, holds the first statements.
  The narrowing of the \<^verbatim>\<open>double\<close> returned by \<^verbatim>\<open>elapsed()\<close> to the \<^verbatim>\<open>float\<close> return
  type is not modelled (both are reals here). The local variable \<^verbatim>\<open>kernel\<close> is
  written \<open>kern\<close>.
\<close>

text \<open>
  \<^verbatim>\<open>clReleaseMemObject(a_device); clReleaseMemObject(b_device); clReleaseMemObject(c_device);
  clReleaseProgram(program); clReleaseKernel(kernel); clReleaseCommandQueue(commands);
  clReleaseContext(context);\<close> The values returned are dropped.
\<close>

definition release_resources ::
  "platform \<Rightarrow> handle \<Rightarrow> handle \<Rightarrow> handle \<Rightarrow> handle \<Rightarrow> handle \<Rightarrow> handle \<Rightarrow> handle \<Rightarrow> trace \<Rightarrow> trace" where
  "release_resources P a_device b_device c_device program kern commands context tr =
    (let tr = tr @ [ReleaseMemObject a_device (clReleaseMemObject P tr a_device)];
         tr = tr @ [ReleaseMemObject b_device (clReleaseMemObject P tr b_device)];
         tr = tr @ [ReleaseMemObject c_device (clReleaseMemObject P tr c_device)];
         tr = tr @ [ReleaseProgram program (clReleaseProgram P tr program)];
         tr = tr @ [ReleaseKernel kern (clReleaseKernel P tr kern)];
         tr = tr @ [ReleaseCommandQueue commands (clReleaseCommandQueue P tr commands)];
         tr = tr @ [ReleaseContext context (clReleaseContext P tr context)]
     in tr)"

text \<open>
  \<^verbatim>\<open>// Validate the output array.\<close> Then the releases and
  \<^verbatim>\<open>return execution_timer.elapsed();\<close>
\<close>

definition validate_output ::
  "platform \<Rightarrow> host_array \<Rightarrow> host_array \<Rightarrow> host_array \<Rightarrow> 32 word \<Rightarrow>
   handle \<Rightarrow> handle \<Rightarrow> handle \<Rightarrow> handle \<Rightarrow> handle \<Rightarrow> handle \<Rightarrow> handle \<Rightarrow> Timer \<Rightarrow> trace \<Rightarrow> run" where
  "validate_output P c_host a_host b_host N
       context commands program kern a_device b_device c_device execution_timer tr =
    (case validation_loop c_host a_host b_host 0 (size_t_of_int (sint N)) of
       Some e \<Rightarrow> \<lparr>outcome = Inl e, c_host_out = c_host, calls = tr\<rparr>
     | None \<Rightarrow>
        (let tr = release_resources P a_device b_device c_device program kern commands context tr
         in \<lparr>outcome = Inr (elapsed execution_timer), c_host_out = c_host, calls = tr\<rparr>))"

text \<open>\<^verbatim>\<open>// Read the output array from device memory into host memory.\<close>\<close>

definition read_output ::
  "platform \<Rightarrow> host_array \<Rightarrow> host_array \<Rightarrow> host_array \<Rightarrow> 32 word \<Rightarrow>
   handle \<Rightarrow> handle \<Rightarrow> handle \<Rightarrow> handle \<Rightarrow> handle \<Rightarrow> handle \<Rightarrow> handle \<Rightarrow> Timer \<Rightarrow> trace \<Rightarrow> run" where
  "read_output P c_host a_host b_host N
       context commands program kern a_device b_device c_device execution_timer tr =
    (let bytes = buffer_bytes N;
         (err, device) = clEnqueueReadBuffer P tr commands c_device bytes (host_region c_host bytes);
         tr = tr @ [EnqueueReadBuffer commands c_device bytes err (map device [0..<bytes div sizeof_int])];
         c_host = copy_to_host c_host bytes device
     in if err \<noteq> CL_SUCCESS then throw ''clEnqueueReadBuffer'' c_host tr
        else validate_output P c_host a_host b_host N
               context commands program kern a_device b_device c_device execution_timer tr)"

text \<open>
  \<^verbatim>\<open>Timer execution_timer; execution_timer.start();\<close>, the dispatch over
  \<^verbatim>\<open>global_size = N\<close> work-items, \<^verbatim>\<open>clFinish(commands);\<close> (its value is dropped) and
  \<^verbatim>\<open>execution_timer.stop();\<close>
\<close>

definition execute_kernel ::
  "platform \<Rightarrow> host_array \<Rightarrow> host_array \<Rightarrow> host_array \<Rightarrow> 32 word \<Rightarrow>
   handle \<Rightarrow> handle \<Rightarrow> handle \<Rightarrow> handle \<Rightarrow> handle \<Rightarrow> handle \<Rightarrow> handle \<Rightarrow> nat \<Rightarrow> trace \<Rightarrow> run" where
  "execute_kernel P c_host a_host b_host N
       context commands program kern a_device b_device c_device local_size tr =
    (let execution_timer = Timer_new;
         tv = gettimeofday P tr;
         tr = tr @ [Gettimeofday tv];
         execution_timer = start tv execution_timer;
         global_size = size_t_of_int (sint N);
         err = clEnqueueNDRangeKernel P tr commands kern global_size local_size;
         tr = tr @ [EnqueueNDRangeKernel commands kern global_size local_size err]
     in if err \<noteq> CL_SUCCESS then throw ''clEnqueueNDRangeKernel'' c_host tr
        else
          (let tr = tr @ [Finish commands (clFinish P tr commands)];
               tv = gettimeofday P tr;
               tr = tr @ [Gettimeofday tv];
               execution_timer = stop tv execution_timer
           in read_output P c_host a_host b_host N
                context commands program kern a_device b_device c_device execution_timer tr))"

text \<open>\<^verbatim>\<open>// Get the maximum work group size for the device we're using.\<close>\<close>

definition get_work_group_size ::
  "platform \<Rightarrow> host_array \<Rightarrow> host_array \<Rightarrow> host_array \<Rightarrow> 32 word \<Rightarrow>
   handle \<Rightarrow> handle \<Rightarrow> handle \<Rightarrow> handle \<Rightarrow> handle \<Rightarrow> handle \<Rightarrow> handle \<Rightarrow> handle \<Rightarrow> trace \<Rightarrow> run" where
  "get_work_group_size P c_host a_host b_host N
       device_id context commands program kern a_device b_device c_device tr =
    (let (err, local_size) = clGetKernelWorkGroupInfo P tr kern device_id;
         tr = tr @ [GetKernelWorkGroupInfo kern device_id err local_size]
     in if err \<noteq> CL_SUCCESS then throw ''clGetKernelWorkGroupInfo'' c_host tr
        else execute_kernel P c_host a_host b_host N
               context commands program kern a_device b_device c_device local_size tr)"

text \<open>\<^verbatim>\<open>// Set the arguments to the kernel\<close>: three calls, their values or-ed, one check.\<close>

definition set_kernel_args ::
  "platform \<Rightarrow> host_array \<Rightarrow> host_array \<Rightarrow> host_array \<Rightarrow> 32 word \<Rightarrow>
   handle \<Rightarrow> handle \<Rightarrow> handle \<Rightarrow> handle \<Rightarrow> handle \<Rightarrow> handle \<Rightarrow> handle \<Rightarrow> handle \<Rightarrow> trace \<Rightarrow> run" where
  "set_kernel_args P c_host a_host b_host N
       device_id context commands program kern a_device b_device c_device tr =
    (let err0 = clSetKernelArg P tr kern 0 c_device;
         tr = tr @ [SetKernelArg kern 0 c_device err0];
         err1 = clSetKernelArg P tr kern 1 a_device;
         tr = tr @ [SetKernelArg kern 1 a_device err1];
         err2 = clSetKernelArg P tr kern 2 b_device;
         tr = tr @ [SetKernelArg kern 2 b_device err2];
         err = err0 OR err1 OR err2
     in if err \<noteq> CL_SUCCESS then throw ''clSetKernelArg'' c_host tr
        else get_work_group_size P c_host a_host b_host N
               device_id context commands program kern a_device b_device c_device tr)"

text \<open>\<^verbatim>\<open>// Write the input arrays into device memory.\<close>\<close>

definition write_inputs ::
  "platform \<Rightarrow> host_array \<Rightarrow> host_array \<Rightarrow> host_array \<Rightarrow> 32 word \<Rightarrow>
   handle \<Rightarrow> handle \<Rightarrow> handle \<Rightarrow> handle \<Rightarrow> handle \<Rightarrow> handle \<Rightarrow> handle \<Rightarrow> handle \<Rightarrow> trace \<Rightarrow> run" where
  "write_inputs P c_host a_host b_host N
       device_id context commands program kern a_device b_device c_device tr =
    (let bytes = buffer_bytes N;
         err = clEnqueueWriteBuffer P tr commands a_device bytes (host_region a_host bytes);
         tr = tr @ [EnqueueWriteBuffer commands a_device bytes (host_region a_host bytes) err]
     in if err \<noteq> CL_SUCCESS then throw ''clEnqueueWriteBuffer'' c_host tr
        else
          (let err = clEnqueueWriteBuffer P tr commands b_device bytes (host_region b_host bytes);
               tr = tr @ [EnqueueWriteBuffer commands b_device bytes (host_region b_host bytes) err]
           in if err \<noteq> CL_SUCCESS then throw ''clEnqueueWriteBuffer'' c_host tr
              else set_kernel_args P c_host a_host b_host N
                     device_id context commands program kern a_device b_device c_device tr))"

text \<open>
  \<^verbatim>\<open>// Create the device buffers for our kernel (two inputs, one output).\<close>: three
  calls, one check. No error code is asked for (the last argument is \<^verbatim>\<open>NULL\<close>).
\<close>

definition create_buffers ::
  "platform \<Rightarrow> host_array \<Rightarrow> host_array \<Rightarrow> host_array \<Rightarrow> 32 word \<Rightarrow>
   handle \<Rightarrow> handle \<Rightarrow> handle \<Rightarrow> handle \<Rightarrow> handle \<Rightarrow> trace \<Rightarrow> run" where
  "create_buffers P c_host a_host b_host N device_id context commands program kern tr =
    (let bytes = buffer_bytes N;
         a_device = clCreateBuffer P tr context CL_MEM_READ_ONLY bytes;
         tr = tr @ [CreateBuffer context CL_MEM_READ_ONLY bytes a_device];
         b_device = clCreateBuffer P tr context CL_MEM_READ_ONLY bytes;
         tr = tr @ [CreateBuffer context CL_MEM_READ_ONLY bytes b_device];
         c_device = clCreateBuffer P tr context CL_MEM_WRITE_ONLY bytes;
         tr = tr @ [CreateBuffer context CL_MEM_WRITE_ONLY bytes c_device]
     in if a_device = NULL \<or> b_device = NULL \<or> c_device = NULL
        then throw ''clCreateBuffer'' c_host tr
        else write_inputs P c_host a_host b_host N
               device_id context commands program kern a_device b_device c_device tr)"

text \<open>\<^verbatim>\<open>// Extract the compute kernel from the program.\<close>\<close>

definition extract_kernel ::
  "platform \<Rightarrow> host_array \<Rightarrow> host_array \<Rightarrow> host_array \<Rightarrow> 32 word \<Rightarrow>
   handle \<Rightarrow> handle \<Rightarrow> handle \<Rightarrow> handle \<Rightarrow> trace \<Rightarrow> run" where
  "extract_kernel P c_host a_host b_host N device_id context commands program tr =
    (let (kern, err) = clCreateKernel P tr program ''add'';
         tr = tr @ [CreateKernel program ''add'' kern err]
     in if kern = NULL \<or> err \<noteq> CL_SUCCESS then throw ''clCreateKernel'' c_host tr
        else create_buffers P c_host a_host b_host N device_id context commands program kern tr)"

text \<open>\<^verbatim>\<open>// Build the program.\<close>\<close>

definition build_program ::
  "platform \<Rightarrow> host_array \<Rightarrow> host_array \<Rightarrow> host_array \<Rightarrow> 32 word \<Rightarrow>
   handle \<Rightarrow> handle \<Rightarrow> handle \<Rightarrow> handle \<Rightarrow> trace \<Rightarrow> run" where
  "build_program P c_host a_host b_host N device_id context commands program tr =
    (let err = clBuildProgram P tr program;
         tr = tr @ [BuildProgram program err]
     in if err \<noteq> CL_SUCCESS then throw ''clBuildProgram'' c_host tr
        else extract_kernel P c_host a_host b_host N device_id context commands program tr)"

text \<open>
  \<^verbatim>\<open>// Load the source code from the file.\<close> and
  \<^verbatim>\<open>// Create a program from the source buffer.\<close> The error code stored by the call
  is not looked at.
\<close>

definition create_program ::
  "platform \<Rightarrow> host_array \<Rightarrow> host_array \<Rightarrow> host_array \<Rightarrow> 32 word \<Rightarrow>
   handle \<Rightarrow> handle \<Rightarrow> handle \<Rightarrow> trace \<Rightarrow> run" where
  "create_program P c_host a_host b_host N device_id context commands tr =
    (let source = read_source_file P tr ''opencl_example.cl'';
         tr = tr @ [ReadSourceFile ''opencl_example.cl'' source];
         (program, err) = clCreateProgramWithSource P tr context source;
         tr = tr @ [CreateProgramWithSource context source program err]
     in if program = NULL then throw ''clCreateProgramWithSource'' c_host tr
        else build_program P c_host a_host b_host N device_id context commands program tr)"

text \<open>\<^verbatim>\<open>// Create a command queue.\<close> The error code stored by the call is not looked at.\<close>

definition create_command_queue ::
  "platform \<Rightarrow> host_array \<Rightarrow> host_array \<Rightarrow> host_array \<Rightarrow> 32 word \<Rightarrow>
   handle \<Rightarrow> handle \<Rightarrow> trace \<Rightarrow> run" where
  "create_command_queue P c_host a_host b_host N device_id context tr =
    (let (commands, err) = clCreateCommandQueue P tr context device_id;
         tr = tr @ [CreateCommandQueue context device_id commands err]
     in if commands = NULL then throw ''clCreateCommandQueue'' c_host tr
        else create_program P c_host a_host b_host N device_id context commands tr)"

text \<open>
  \<^verbatim>\<open>float add_opencl(bool use_gpu, int* c_host, int* a_host, int* b_host, int N)\<close>,
  from \<^verbatim>\<open>// Create a context.\<close> on: the device of the class asked for, and a context
  for it (the error code stored by \<^verbatim>\<open>clCreateContext\<close> is not looked at).
\<close>

definition add_opencl ::
  "platform \<Rightarrow> bool \<Rightarrow> host_array \<Rightarrow> host_array \<Rightarrow> host_array \<Rightarrow> 32 word \<Rightarrow> run" where
  "add_opencl P use_gpu c_host a_host b_host N =
    (let ty = (if use_gpu then CL_DEVICE_TYPE_GPU else CL_DEVICE_TYPE_CPU);
         (err, device_id) = clGetDeviceIDs P [] ty;
         tr = [GetDeviceIDs ty err device_id]
     in if err \<noteq> CL_SUCCESS then throw ''clGetDeviceIDs'' c_host tr
        else
          (let (context, err) = clCreateContext P tr device_id;
               tr = tr @ [CreateContext device_id context err]
           in if context = NULL then throw ''clCreateContext'' c_host tr
              else create_command_queue P c_host a_host b_host N device_id context tr))"

section \<open>main\<close>

text \<open>
  Modelled from the documented contract of \<^verbatim>\<open>getopt_long(3)\<close>, a function of the C
  library: the option table is an array whose last element has to be filled with zeros;
  an argument \<^verbatim>\<open>--name\<close> is looked up in the table from its first element on, an exact
  match ends the scan, a name that is a prefix of exactly one option's name is accepted
  when the scan reaches the zero element, and anything else yields \<^verbatim>\<open>'?'\<close>; an argument
  \<^verbatim>\<open>-xyz\<close> is a cluster of short options, each looked up in the option string; \<^verbatim>\<open>--\<close>
  ends the options; other arguments are skipped. A scan that runs past the elements the
  program initialised reads memory outside the array: \<open>Overrun\<close>.
\<close>

datatype option_entry = Option string char | Zeros

datatype lookup = Found char | Not_found | Overrun

fun scan_longopts :: "string \<Rightarrow> option_entry list \<Rightarrow> char list \<Rightarrow> lookup" where
  "scan_longopts nm [] partial = Overrun"
| "scan_longopts nm (Zeros # tbl) partial =
     (case remdups partial of [v] \<Rightarrow> Found v | _ \<Rightarrow> Not_found)"
| "scan_longopts nm (Option n v # tbl) partial =
     (if n = nm then Found v
      else if take (length nm) n = nm then scan_longopts nm tbl (partial @ [v])
      else scan_longopts nm tbl partial)"

datatype getopt_fault = Longopts_overrun

text \<open>
  The values \<^verbatim>\<open>getopt_long\<close> returns, call after call, before it returns -1.
\<close>

fun getopt_long :: "string \<Rightarrow> option_entry list \<Rightarrow> string list \<Rightarrow> getopt_fault + char list" where
  "getopt_long optstring tbl [] = Inr []"
| "getopt_long optstring tbl (arg # args) =
     (if arg = ''--'' then Inr []
      else if take 2 arg = ''--'' then
        (case scan_longopts (takeWhile (\<lambda>ch. ch \<noteq> CHR ''='') (drop 2 arg)) tbl [] of
           Overrun \<Rightarrow> Inl Longopts_overrun
         | Not_found \<Rightarrow> map_sum id (\<lambda>os. CHR ''?'' # os) (getopt_long optstring tbl args)
         | Found v \<Rightarrow>
             map_sum id (\<lambda>os. (if CHR ''='' \<in> set arg then CHR ''?'' else v) # os)
               (getopt_long optstring tbl args))
      else if 2 \<le> length arg \<and> hd arg = CHR ''-'' then
        map_sum id (\<lambda>os. map (\<lambda>ch. if ch \<in> set optstring then ch else CHR ''?'') (tl arg) @ os)
          (getopt_long optstring tbl args)
      else getopt_long optstring tbl args)"

text \<open>
  \<^verbatim>\<open>struct option longopts[] = { { "use-cpu", no_argument, 0, 'c' },
  { "use-gpu", no_argument, 0, 'g' }, };\<close>: two elements, and no element of zeros.
\<close>

definition longopts :: "option_entry list" where
  "longopts = [Option ''use-cpu'' CHR ''c'', Option ''use-gpu'' CHR ''g'']"

text \<open>
  \<^verbatim>\<open>while ((o = getopt_long(...)) != -1) switch (o) { case 'c': use_gpu = false; break;
  case 'g': use_gpu = true; break; default: break; }\<close> over the values returned.
\<close>

fun option_loop :: "char list \<Rightarrow> bool \<Rightarrow> bool" where
  "option_loop [] use_gpu = use_gpu"
| "option_loop (opt # os) use_gpu =
     (if opt = CHR ''c'' then option_loop os False
      else if opt = CHR ''g'' then option_loop os True
      else option_loop os use_gpu)"

text \<open>
  The device class \<^verbatim>\<open>main\<close> selects from its arguments (\<^verbatim>\<open>argv[0]\<close> is the program's
  name): \<^verbatim>\<open>bool use_gpu = false;\<close>, then the loop.
\<close>

definition parse_command_line :: "string list \<Rightarrow> getopt_fault + bool" where
  "parse_command_line argv = map_sum id (\<lambda>os. option_loop os False) (getopt_long ''cg'' longopts (tl argv))"

text \<open>
  \<^verbatim>\<open>main\<close>: the arrays hold \<^verbatim>\<open>a[i] = i\<close> and \<^verbatim>\<open>b[i] = 2 * i\<close> (as \<^verbatim>\<open>int\<close>, for
  the \<open>N\<close> indices that exist), the output array \<open>c\<close> is not initialised, and the call
  is \<^verbatim>\<open>add_opencl(use_gpu, c, b, a, N)\<close>. The line printed afterwards is not modelled.
\<close>

definition main :: "platform \<Rightarrow> host_array \<Rightarrow> string list \<Rightarrow> getopt_fault + run" where
  "main P c argv =
     map_sum id
       (\<lambda>use_gpu. add_opencl P use_gpu c (\<lambda>i. 2 * word_of_nat i) (\<lambda>i. word_of_nat i)
          (32 * 1024 * 1024))
       (parse_command_line argv)"

section \<open>Vocabulary of the properties\<close>

text \<open>The copies between host memory and device buffers.\<close>

fun is_transfer :: "event \<Rightarrow> bool" where
  "is_transfer (EnqueueWriteBuffer q m n xs err) = True"
| "is_transfer (EnqueueReadBuffer q m n err xs) = True"
| "is_transfer ev = False"

fun is_buffer_creation :: "event \<Rightarrow> bool" where
  "is_buffer_creation (CreateBuffer x fl n m) = True"
| "is_buffer_creation ev = False"


fun is_clock_read :: "event \<Rightarrow> bool" where
  "is_clock_read (Gettimeofday tv) = True"
| "is_clock_read ev = False"

fun is_device_query :: "event \<Rightarrow> bool" where
  "is_device_query (GetDeviceIDs ty err d) = True"
| "is_device_query ev = False"


text \<open>The device resources a trace acquires and the ones it releases, in order.\<close>

datatype resource = Mem handle | Program handle | Kernel handle | Queue handle | Context handle

fun acquired :: "trace \<Rightarrow> resource list" where
  "acquired [] = []"
| "acquired (CreateContext d x err # tr) = Context x # acquired tr"
| "acquired (CreateCommandQueue x d q err # tr) = Queue q # acquired tr"
| "acquired (CreateProgramWithSource x src p err # tr) = Program p # acquired tr"
| "acquired (CreateKernel p nm k err # tr) = Kernel k # acquired tr"
| "acquired (CreateBuffer x fl n m # tr) = Mem m # acquired tr"
| "acquired (ev # tr) = acquired tr"

fun released :: "trace \<Rightarrow> resource list" where
  "released [] = []"
| "released (ReleaseMemObject m err # tr) = Mem m # released tr"
| "released (ReleaseProgram p err # tr) = Program p # released tr"
| "released (ReleaseKernel k err # tr) = Kernel k # released tr"
| "released (ReleaseCommandQueue q err # tr) = Queue q # released tr"
| "released (ReleaseContext x err # tr) = Context x # released tr"
| "released (ev # tr) = released tr"

text \<open>
  The failure the program raises on a call's result, for the calls whose result it
  inspects: the message is the name of the API function.
\<close>

fun inspected_failure :: "event \<Rightarrow> string option" where
  "inspected_failure (GetDeviceIDs ty err d) = (if err \<noteq> CL_SUCCESS then Some ''clGetDeviceIDs'' else None)"
| "inspected_failure (CreateContext d x err) = (if x = NULL then Some ''clCreateContext'' else None)"
| "inspected_failure (CreateCommandQueue x d q err) = (if q = NULL then Some ''clCreateCommandQueue'' else None)"
| "inspected_failure (CreateProgramWithSource x src p err) =
     (if p = NULL then Some ''clCreateProgramWithSource'' else None)"
| "inspected_failure (BuildProgram p err) = (if err \<noteq> CL_SUCCESS then Some ''clBuildProgram'' else None)"
| "inspected_failure (CreateKernel p nm k err) =
     (if k = NULL \<or> err \<noteq> CL_SUCCESS then Some ''clCreateKernel'' else None)"
| "inspected_failure (CreateBuffer x fl n m) = (if m = NULL then Some ''clCreateBuffer'' else None)"
| "inspected_failure (EnqueueWriteBuffer q m n xs err) =
     (if err \<noteq> CL_SUCCESS then Some ''clEnqueueWriteBuffer'' else None)"
| "inspected_failure (SetKernelArg k i m err) = (if err \<noteq> CL_SUCCESS then Some ''clSetKernelArg'' else None)"
| "inspected_failure (GetKernelWorkGroupInfo k d err l) =
     (if err \<noteq> CL_SUCCESS then Some ''clGetKernelWorkGroupInfo'' else None)"
| "inspected_failure (EnqueueNDRangeKernel q k g l err) =
     (if err \<noteq> CL_SUCCESS then Some ''clEnqueueNDRangeKernel'' else None)"
| "inspected_failure (EnqueueReadBuffer q m n err xs) =
     (if err \<noteq> CL_SUCCESS then Some ''clEnqueueReadBuffer'' else None)"
| "inspected_failure ev = None"

text \<open>The API function (or system call) behind a call of the trace.\<close>

fun api_name :: "event \<Rightarrow> string" where
  "api_name (GetDeviceIDs ty err d) = ''clGetDeviceIDs''"
| "api_name (CreateContext d x err) = ''clCreateContext''"
| "api_name (CreateCommandQueue x d q err) = ''clCreateCommandQueue''"
| "api_name (ReadSourceFile f src) = ''ifstream''"
| "api_name (CreateProgramWithSource x src p err) = ''clCreateProgramWithSource''"
| "api_name (BuildProgram p err) = ''clBuildProgram''"
| "api_name (CreateKernel p nm k err) = ''clCreateKernel''"
| "api_name (CreateBuffer x fl n m) = ''clCreateBuffer''"
| "api_name (EnqueueWriteBuffer q m n xs err) = ''clEnqueueWriteBuffer''"
| "api_name (SetKernelArg k i m err) = ''clSetKernelArg''"
| "api_name (GetKernelWorkGroupInfo k d err l) = ''clGetKernelWorkGroupInfo''"
| "api_name (Gettimeofday tv) = ''gettimeofday''"
| "api_name (EnqueueNDRangeKernel q k g l err) = ''clEnqueueNDRangeKernel''"
| "api_name (Finish q err) = ''clFinish''"
| "api_name (EnqueueReadBuffer q m n err xs) = ''clEnqueueReadBuffer''"
| "api_name (ReleaseMemObject m err) = ''clReleaseMemObject''"
| "api_name (ReleaseProgram p err) = ''clReleaseProgram''"
| "api_name (ReleaseKernel k err) = ''clReleaseKernel''"
| "api_name (ReleaseCommandQueue q err) = ''clReleaseCommandQueue''"
| "api_name (ReleaseContext x err) = ''clReleaseContext''"

fun is_build :: "event \<Rightarrow> bool" where
  "is_build (BuildProgram p err) = True"
| "is_build ev = False"


text \<open>The status a release call returned, and the status of the wait for completion.\<close>

fun release_status :: "event \<Rightarrow> cl_int" where
  "release_status (ReleaseMemObject m err) = err"
| "release_status (ReleaseProgram p err) = err"
| "release_status (ReleaseKernel k err) = err"
| "release_status (ReleaseCommandQueue q err) = err"
| "release_status (ReleaseContext x err) = err"
| "release_status ev = CL_SUCCESS"

fun finish_status :: "event \<Rightarrow> cl_int" where
  "finish_status (Finish q err) = err"
| "finish_status ev = CL_SUCCESS"

section \<open>Platforms to run the program on\<close>

text \<open>
  A device that works: every call succeeds, handles are fresh numbers, the clock
  advances by one second per call, and a read-back yields the element-wise sum of the
  arrays written before.
\<close>

fun written :: "trace \<Rightarrow> 32 word list list" where
  "written [] = []"
| "written (EnqueueWriteBuffer q m n xs err # tr) = xs # written tr"
| "written (ev # tr) = written tr"

definition device_sum :: "trace \<Rightarrow> nat \<Rightarrow> 32 word" where
  "device_sum tr i = sum_list (map (\<lambda>xs. if i < length xs then xs ! i else 0) (written tr))"

definition working_platform :: platform where
  "working_platform =
     \<lparr>clGetDeviceIDs = (\<lambda>tr ty. (CL_SUCCESS, case ty of CL_DEVICE_TYPE_CPU \<Rightarrow> 1 | CL_DEVICE_TYPE_GPU \<Rightarrow> 2)),
      clCreateContext = (\<lambda>tr d. (10 + length tr, CL_SUCCESS)),
      clCreateCommandQueue = (\<lambda>tr x d. (10 + length tr, CL_SUCCESS)),
      read_source_file = (\<lambda>tr f. ''kernel''),
      clCreateProgramWithSource = (\<lambda>tr x src. (10 + length tr, CL_SUCCESS)),
      clBuildProgram = (\<lambda>tr p. CL_SUCCESS),
      clCreateKernel = (\<lambda>tr p nm. (10 + length tr, CL_SUCCESS)),
      clCreateBuffer = (\<lambda>tr x fl n. 10 + length tr),
      clEnqueueWriteBuffer = (\<lambda>tr q m n xs. CL_SUCCESS),
      clSetKernelArg = (\<lambda>tr k i m. CL_SUCCESS),
      clGetKernelWorkGroupInfo = (\<lambda>tr k d. (CL_SUCCESS, 1)),
      gettimeofday = (\<lambda>tr. \<lparr>tv_sec = int (length tr), tv_usec = 0\<rparr>),
      clEnqueueNDRangeKernel = (\<lambda>tr q k g l. CL_SUCCESS),
      clFinish = (\<lambda>tr q. CL_SUCCESS),
      clEnqueueReadBuffer = (\<lambda>tr q m n old. (CL_SUCCESS, device_sum tr)),
      clReleaseMemObject = (\<lambda>tr m. CL_SUCCESS),
      clReleaseProgram = (\<lambda>tr p. CL_SUCCESS),
      clReleaseKernel = (\<lambda>tr k. CL_SUCCESS),
      clReleaseCommandQueue = (\<lambda>tr q. CL_SUCCESS),
      clReleaseContext = (\<lambda>tr x. CL_SUCCESS)\<rparr>"

text \<open>The same device with a kernel source that does not compile (\<^verbatim>\<open>CL_BUILD_PROGRAM_FAILURE\<close>).\<close>

definition broken_source_platform :: platform where
  "broken_source_platform = working_platform\<lparr>clBuildProgram := (\<lambda>tr p. - 11)\<rparr>"


text \<open>The same device, where releasing the context reports \<^verbatim>\<open>CL_OUT_OF_RESOURCES\<close>.\<close>

definition failing_release_platform :: platform where
  "failing_release_platform = working_platform\<lparr>clReleaseContext := (\<lambda>tr x. - 5)\<rparr>"

text \<open>The same device, where the wait for completion reports \<^verbatim>\<open>CL_OUT_OF_RESOURCES\<close>.\<close>

definition failing_finish_platform :: platform where
  "failing_finish_platform = working_platform\<lparr>clFinish := (\<lambda>tr q. - 5)\<rparr>"

text \<open>The arrays of the scenario \<open>A = [0,1,2,3]\<close>, \<open>B = [0,2,4,6]\<close>, and an output array of zeros.\<close>

definition A0 :: host_array where
  "A0 = (\<lambda>i. word_of_nat i)"

definition B0 :: host_array where
  "B0 = (\<lambda>i. 2 * word_of_nat i)"

definition C0 :: host_array where
  "C0 = (\<lambda>i. 0)"

text \<open>The runs used as examples.\<close>

abbreviation working_run :: run where
  "working_run \<equiv> add_opencl working_platform False C0 A0 B0 4"

abbreviation working_gpu_run :: run where
  "working_gpu_run \<equiv> add_opencl working_platform True C0 A0 B0 4"

abbreviation broken_source_run :: run where
  "broken_source_run \<equiv> add_opencl broken_source_platform False C0 A0 B0 4"



abbreviation failing_release_run :: run where
  "failing_release_run \<equiv> add_opencl failing_release_platform False C0 A0 B0 4"

abbreviation failing_finish_run :: run where
  "failing_finish_run \<equiv> add_opencl failing_finish_platform False C0 A0 B0 4"

section \<open>The stopwatch: properties\<close>

lemma timer_calls_start:
  "m_start (timer_calls cs t) = (case last_start cs of None \<Rightarrow> m_start t | Some tv \<Rightarrow> now tv)"
proof (induction cs arbitrary: t)
  case Nil
  show ?case by simp
next
  case (Cons c cs)
  show ?case
    by (cases c) (simp_all add: Cons.IH start_def stop_def split: option.splits)
qed

lemma timer_calls_stop:
  "m_stop (timer_calls cs t) = (case last_stop cs of None \<Rightarrow> m_stop t | Some tv \<Rightarrow> now tv)"
proof (induction cs arbitrary: t)
  case Nil
  show ?case by simp
next
  case (Cons c cs)
  show ?case
    by (cases c) (simp_all add: Cons.IH start_def stop_def split: option.splits)
qed

text \<open>
  C4. \<^verbatim>\<open>elapsed()\<close> is the difference of the two instants currently held, whatever
  calls came before (it has no failure result at all), and on a stopwatch that was only
  constructed it is 0.
\<close>

theorem elapsed_is_stop_minus_start:
  "elapsed t = m_stop t - m_start t \<and> elapsed Timer_new = 0
   \<and> elapsed (stop tv Timer_new) = now tv \<and> elapsed (start tv Timer_new) = - now tv"
  by (simp add: elapsed_def Timer_new_def start_def stop_def)

text \<open>
  C10. \<^verbatim>\<open>start()\<close> writes \<^verbatim>\<open>m_start\<close> and leaves \<^verbatim>\<open>m_stop\<close> as it was, \<^verbatim>\<open>stop()\<close>
  writes \<^verbatim>\<open>m_stop\<close> and leaves \<^verbatim>\<open>m_start\<close> as it was; so after any sequence of calls
  each instant is the reading of the last call of its own kind, or the initial value
  when there was none.
\<close>

theorem start_stop_frame:
  "m_stop (start tv t) = m_stop t \<and> m_start (start tv t) = now tv
   \<and> m_start (stop tv t) = m_start t \<and> m_stop (stop tv t) = now tv
   \<and> m_start (timer_calls cs t) = (case last_start cs of None \<Rightarrow> m_start t | Some tv' \<Rightarrow> now tv')
   \<and> m_stop (timer_calls cs t) = (case last_stop cs of None \<Rightarrow> m_stop t | Some tv' \<Rightarrow> now tv')"
  by (simp add: start_def stop_def timer_calls_start timer_calls_stop)

section \<open>Running add\_opencl step by step\<close>

text \<open>
  The validation loop ends without an exception exactly when every element it visits
  is the sum, and the only exception it raises is the validation failure.
\<close>

lemma all_from_Suc:
  assumes "Q i"
  shows "(\<forall>j. Suc i \<le> j \<and> j < n \<longrightarrow> Q j) \<longleftrightarrow> (\<forall>j. i \<le> j \<and> j < n \<longrightarrow> Q j)"
proof
  assume r: "\<forall>j. Suc i \<le> j \<and> j < n \<longrightarrow> Q j"
  show "\<forall>j. i \<le> j \<and> j < n \<longrightarrow> Q j"
  proof (intro allI impI)
    fix j
    assume j: "i \<le> j \<and> j < n"
    show "Q j"
    proof (cases "j = i")
      case True
      with assms show ?thesis by simp
    next
      case False
      with j have "Suc i \<le> j \<and> j < n" by arith
      with r show ?thesis by blast
    qed
  qed
next
  assume r: "\<forall>j. i \<le> j \<and> j < n \<longrightarrow> Q j"
  show "\<forall>j. Suc i \<le> j \<and> j < n \<longrightarrow> Q j"
  proof (intro allI impI)
    fix j
    assume "Suc i \<le> j \<and> j < n"
    then have "i \<le> j \<and> j < n" by arith
    with r show "Q j" by blast
  qed
qed

lemma validation_loop_None:
  "validation_loop c a b i n = None \<longleftrightarrow> (\<forall>j. i \<le> j \<and> j < n \<longrightarrow> c j = a j + b j)"
proof (induction c a b i n rule: validation_loop.induct)
  case (1 c a b i n)
  have unfold: "validation_loop c a b i n =
     (if i < n then
        (if c i \<noteq> a i + b i then Some (Runtime_error ''Result validation failed'')
         else validation_loop c a b (Suc i) n)
      else None)"
    by (rule validation_loop.simps)
  show ?case
  proof (cases "i < n")
    case False
    then have "validation_loop c a b i n = None"
      by (simp only: unfold if_False)
    moreover from False have "\<forall>j. i \<le> j \<and> j < n \<longrightarrow> c j = a j + b j"
      by auto
    ultimately show ?thesis by simp
  next
    case True
    show ?thesis
    proof (cases "c i = a i + b i")
      case False
      with True have "validation_loop c a b i n \<noteq> None"
        by (simp only: unfold) simp
      moreover from True False have "\<not> (\<forall>j. i \<le> j \<and> j < n \<longrightarrow> c j = a j + b j)"
        by auto
      ultimately show ?thesis by blast
    next
      case eq: True
      have "validation_loop c a b i n = validation_loop c a b (Suc i) n"
        using True eq by (simp only: unfold) simp
      moreover have "validation_loop c a b (Suc i) n = None
           \<longleftrightarrow> (\<forall>j. Suc i \<le> j \<and> j < n \<longrightarrow> c j = a j + b j)"
        using "1.IH" True eq by simp
      moreover have "(\<forall>j. Suc i \<le> j \<and> j < n \<longrightarrow> c j = a j + b j)
           \<longleftrightarrow> (\<forall>j. i \<le> j \<and> j < n \<longrightarrow> c j = a j + b j)"
        using eq by (rule all_from_Suc)
      ultimately show ?thesis by simp
    qed
  qed
qed

lemma validation_loop_Some:
  "validation_loop c a b i n = Some e \<Longrightarrow> e = Runtime_error ''Result validation failed''"
proof (induction c a b i n rule: validation_loop.induct)
  case (1 c a b i n)
  have unfold: "validation_loop c a b i n =
     (if i < n then
        (if c i \<noteq> a i + b i then Some (Runtime_error ''Result validation failed'')
         else validation_loop c a b (Suc i) n)
      else None)"
    by (rule validation_loop.simps)
  show ?case
  proof (cases "i < n \<and> c i = a i + b i")
    case True
    then have "validation_loop c a b (Suc i) n = Some e"
      using "1.prems" by (simp only: unfold) simp
    with True show ?thesis
      using "1.IH" by simp
  next
    case False
    then show ?thesis
      using "1.prems" by (simp only: unfold) (simp split: if_splits)
  qed
qed

text \<open>
  One rule for each part of the procedure: the part either throws, with the calls it
  has made appended to the trace, or goes on to the next part. What the platform
  returned is a variable of the rule, so that a run is followed without looking into
  the platform.
\<close>

lemma release_resources_trace:
  obtains s1 s2 s3 s4 s5 s6 s7 where
    "release_resources P a_device b_device c_device program kern commands context tr =
       tr @ [ReleaseMemObject a_device s1, ReleaseMemObject b_device s2, ReleaseMemObject c_device s3,
             ReleaseProgram program s4, ReleaseKernel kern s5, ReleaseCommandQueue commands s6,
             ReleaseContext context s7]"
proof -
  define s1 where "s1 = clReleaseMemObject P tr a_device"
  define t1 where "t1 = tr @ [ReleaseMemObject a_device s1]"
  define s2 where "s2 = clReleaseMemObject P t1 b_device"
  define t2 where "t2 = t1 @ [ReleaseMemObject b_device s2]"
  define s3 where "s3 = clReleaseMemObject P t2 c_device"
  define t3 where "t3 = t2 @ [ReleaseMemObject c_device s3]"
  define s4 where "s4 = clReleaseProgram P t3 program"
  define t4 where "t4 = t3 @ [ReleaseProgram program s4]"
  define s5 where "s5 = clReleaseKernel P t4 kern"
  define t5 where "t5 = t4 @ [ReleaseKernel kern s5]"
  define s6 where "s6 = clReleaseCommandQueue P t5 commands"
  define t6 where "t6 = t5 @ [ReleaseCommandQueue commands s6]"
  define s7 where "s7 = clReleaseContext P t6 context"
  have "release_resources P a_device b_device c_device program kern commands context tr =
          t6 @ [ReleaseContext context s7]"
    unfolding release_resources_def Let_def s7_def t6_def s6_def t5_def s5_def t4_def s4_def
      t3_def s3_def t2_def s2_def t1_def s1_def
    by (rule refl)
  also have "\<dots> = tr @ [ReleaseMemObject a_device s1, ReleaseMemObject b_device s2,
             ReleaseMemObject c_device s3, ReleaseProgram program s4, ReleaseKernel kern s5,
             ReleaseCommandQueue commands s6, ReleaseContext context s7]"
    by (simp add: t6_def t5_def t4_def t3_def t2_def t1_def)
  finally show thesis
    by (rule that)
qed

lemma validate_output_cases:
  assumes "R = validate_output P c_host a_host b_host N
                 context commands program kern a_device b_device c_device execution_timer tr"
  obtains (mismatch) i where
      "i < size_t_of_int (sint N)" "c_host i \<noteq> a_host i + b_host i"
      "R = throw ''Result validation failed'' c_host tr"
    | (return) s1 s2 s3 s4 s5 s6 s7 where
      "\<forall>i < size_t_of_int (sint N). c_host i = a_host i + b_host i"
      "R = \<lparr>outcome = Inr (elapsed execution_timer), c_host_out = c_host,
            calls = tr @ [ReleaseMemObject a_device s1, ReleaseMemObject b_device s2,
              ReleaseMemObject c_device s3, ReleaseProgram program s4, ReleaseKernel kern s5,
              ReleaseCommandQueue commands s6, ReleaseContext context s7]\<rparr>"
proof (cases "validation_loop c_host a_host b_host 0 (size_t_of_int (sint N))")
  case None
  obtain s1 s2 s3 s4 s5 s6 s7 where
    rel: "release_resources P a_device b_device c_device program kern commands context tr =
       tr @ [ReleaseMemObject a_device s1, ReleaseMemObject b_device s2, ReleaseMemObject c_device s3,
             ReleaseProgram program s4, ReleaseKernel kern s5, ReleaseCommandQueue commands s6,
             ReleaseContext context s7]"
    by (rule release_resources_trace)
  have all: "\<forall>i < size_t_of_int (sint N). c_host i = a_host i + b_host i"
    using None by (simp add: validation_loop_None)
  have "R = \<lparr>outcome = Inr (elapsed execution_timer), c_host_out = c_host,
            calls = tr @ [ReleaseMemObject a_device s1, ReleaseMemObject b_device s2,
              ReleaseMemObject c_device s3, ReleaseProgram program s4, ReleaseKernel kern s5,
              ReleaseCommandQueue commands s6, ReleaseContext context s7]\<rparr>"
    using assms None rel by (simp add: validate_output_def)
  with all show ?thesis
    by (rule return)
next
  case (Some e)
  then have e: "e = Runtime_error ''Result validation failed''"
    by (rule validation_loop_Some)
  from Some have "validation_loop c_host a_host b_host 0 (size_t_of_int (sint N)) \<noteq> None"
    by simp
  then obtain i where i: "i < size_t_of_int (sint N)" "c_host i \<noteq> a_host i + b_host i"
    unfolding validation_loop_None by auto
  have "R = throw ''Result validation failed'' c_host tr"
    using assms Some e by (simp add: validate_output_def throw_def)
  with i show ?thesis
    by (rule mismatch)
qed

lemma read_output_cases:
  assumes "R = read_output P c_host a_host b_host N
                 context commands program kern a_device b_device c_device execution_timer tr"
  obtains (fail) err device where
      "err \<noteq> CL_SUCCESS"
      "R = throw ''clEnqueueReadBuffer'' (copy_to_host c_host (buffer_bytes N) device)
             (tr @ [EnqueueReadBuffer commands c_device (buffer_bytes N) err
                      (map device [0..<buffer_bytes N div sizeof_int])])"
    | (ok) device where
      "R = validate_output P (copy_to_host c_host (buffer_bytes N) device) a_host b_host N
             context commands program kern a_device b_device c_device execution_timer
             (tr @ [EnqueueReadBuffer commands c_device (buffer_bytes N) CL_SUCCESS
                      (map device [0..<buffer_bytes N div sizeof_int])])"
proof -
  obtain err device where
    r: "clEnqueueReadBuffer P tr commands c_device (buffer_bytes N) (host_region c_host (buffer_bytes N))
          = (err, device)"
    by force
  show ?thesis
  proof (cases "err = CL_SUCCESS")
    case True
    with assms r show ?thesis
      by (intro ok[of device]) (simp add: read_output_def Let_def)
  next
    case False
    with assms r show ?thesis
      by (intro fail[of err device]) (simp_all add: read_output_def Let_def)
  qed
qed

lemma execute_kernel_cases:
  assumes "R = execute_kernel P c_host a_host b_host N
                 context commands program kern a_device b_device c_device local_size tr"
  obtains (fail) tv err where
      "err \<noteq> CL_SUCCESS"
      "R = throw ''clEnqueueNDRangeKernel'' c_host
             (tr @ [Gettimeofday tv,
                    EnqueueNDRangeKernel commands kern (size_t_of_int (sint N)) local_size err])"
    | (ok) tv1 status tv2 where
      "tv1 = gettimeofday P tr"
      "tv2 = gettimeofday P (tr @ [Gettimeofday tv1,
                    EnqueueNDRangeKernel commands kern (size_t_of_int (sint N)) local_size CL_SUCCESS,
                    Finish commands status])"
      "R = read_output P c_host a_host b_host N
             context commands program kern a_device b_device c_device
             (stop tv2 (start tv1 Timer_new))
             (tr @ [Gettimeofday tv1,
                    EnqueueNDRangeKernel commands kern (size_t_of_int (sint N)) local_size CL_SUCCESS,
                    Finish commands status, Gettimeofday tv2])"
proof -
  define tv1 where "tv1 = gettimeofday P tr"
  define err where "err = clEnqueueNDRangeKernel P (tr @ [Gettimeofday tv1]) commands kern
     (size_t_of_int (sint N)) local_size"
  show ?thesis
  proof (cases "err = CL_SUCCESS")
    case False
    with assms show ?thesis
      by (intro fail[of err tv1]) (simp_all add: execute_kernel_def Let_def tv1_def err_def)
  next
    case True
    define status where "status = clFinish P (tr @ [Gettimeofday tv1,
        EnqueueNDRangeKernel commands kern (size_t_of_int (sint N)) local_size CL_SUCCESS]) commands"
    define tv2 where "tv2 = gettimeofday P (tr @ [Gettimeofday tv1,
                    EnqueueNDRangeKernel commands kern (size_t_of_int (sint N)) local_size CL_SUCCESS,
                    Finish commands status])"
    from True assms show ?thesis
      by (intro ok[of tv1 tv2 status])
        (simp_all add: execute_kernel_def Let_def tv1_def err_def tv2_def status_def)
  qed
qed


lemma get_work_group_size_cases:
  assumes "R = get_work_group_size P c_host a_host b_host N
                 device_id context commands program kern a_device b_device c_device tr"
  obtains (fail) err local_size where
      "err \<noteq> CL_SUCCESS"
      "R = throw ''clGetKernelWorkGroupInfo'' c_host
             (tr @ [GetKernelWorkGroupInfo kern device_id err local_size])"
    | (ok) local_size where
      "R = execute_kernel P c_host a_host b_host N
             context commands program kern a_device b_device c_device local_size
             (tr @ [GetKernelWorkGroupInfo kern device_id CL_SUCCESS local_size])"
proof -
  obtain err local_size where r: "clGetKernelWorkGroupInfo P tr kern device_id = (err, local_size)"
    by force
  show ?thesis
  proof (cases "err = CL_SUCCESS")
    case True
    with assms r show ?thesis
      by (intro ok[of local_size]) (simp add: get_work_group_size_def)
  next
    case False
    with assms r show ?thesis
      by (intro fail[of err local_size]) (simp_all add: get_work_group_size_def)
  qed
qed

lemma set_kernel_args_cases:
  assumes "R = set_kernel_args P c_host a_host b_host N
                 device_id context commands program kern a_device b_device c_device tr"
  obtains (fail) err0 err1 err2 where
      "err0 \<noteq> CL_SUCCESS \<or> err1 \<noteq> CL_SUCCESS \<or> err2 \<noteq> CL_SUCCESS"
      "R = throw ''clSetKernelArg'' c_host
             (tr @ [SetKernelArg kern 0 c_device err0, SetKernelArg kern 1 a_device err1,
                    SetKernelArg kern 2 b_device err2])"
    | (ok)
      "R = get_work_group_size P c_host a_host b_host N
             device_id context commands program kern a_device b_device c_device
             (tr @ [SetKernelArg kern 0 c_device CL_SUCCESS, SetKernelArg kern 1 a_device CL_SUCCESS,
                    SetKernelArg kern 2 b_device CL_SUCCESS])"
proof -
  define err0 where "err0 = clSetKernelArg P tr kern 0 c_device"
  define err1 where "err1 = clSetKernelArg P (tr @ [SetKernelArg kern 0 c_device err0]) kern 1 a_device"
  define err2 where "err2 = clSetKernelArg P (tr @ [SetKernelArg kern 0 c_device err0,
     SetKernelArg kern 1 a_device err1]) kern 2 b_device"
  have unfold: "R = (if err0 OR err1 OR err2 \<noteq> CL_SUCCESS
       then throw ''clSetKernelArg'' c_host
             (tr @ [SetKernelArg kern 0 c_device err0, SetKernelArg kern 1 a_device err1,
                    SetKernelArg kern 2 b_device err2])
       else get_work_group_size P c_host a_host b_host N
             device_id context commands program kern a_device b_device c_device
             (tr @ [SetKernelArg kern 0 c_device err0, SetKernelArg kern 1 a_device err1,
                    SetKernelArg kern 2 b_device err2]))"
    using assms by (simp add: set_kernel_args_def Let_def err0_def err1_def err2_def)
  show ?thesis
  proof (cases "err0 OR err1 OR err2 = CL_SUCCESS")
    case True
    then have "err0 = CL_SUCCESS" "err1 = CL_SUCCESS" "err2 = CL_SUCCESS"
      by (simp_all add: or_eq_0_iff)
    with unfold show ?thesis
      by (intro ok) simp
  next
    case False
    then have "err0 \<noteq> CL_SUCCESS \<or> err1 \<noteq> CL_SUCCESS \<or> err2 \<noteq> CL_SUCCESS"
      by (auto simp: or_eq_0_iff)
    moreover from False unfold have "R = throw ''clSetKernelArg'' c_host
             (tr @ [SetKernelArg kern 0 c_device err0, SetKernelArg kern 1 a_device err1,
                    SetKernelArg kern 2 b_device err2])"
      by simp
    ultimately show ?thesis
      by (rule fail)
  qed
qed

lemma write_inputs_cases:
  assumes "R = write_inputs P c_host a_host b_host N
                 device_id context commands program kern a_device b_device c_device tr"
  obtains (fail_a) err where
      "err \<noteq> CL_SUCCESS"
      "R = throw ''clEnqueueWriteBuffer'' c_host
             (tr @ [EnqueueWriteBuffer commands a_device (buffer_bytes N)
                      (host_region a_host (buffer_bytes N)) err])"
    | (fail_b) err where
      "err \<noteq> CL_SUCCESS"
      "R = throw ''clEnqueueWriteBuffer'' c_host
             (tr @ [EnqueueWriteBuffer commands a_device (buffer_bytes N)
                      (host_region a_host (buffer_bytes N)) CL_SUCCESS,
                    EnqueueWriteBuffer commands b_device (buffer_bytes N)
                      (host_region b_host (buffer_bytes N)) err])"
    | (ok)
      "R = set_kernel_args P c_host a_host b_host N
             device_id context commands program kern a_device b_device c_device
             (tr @ [EnqueueWriteBuffer commands a_device (buffer_bytes N)
                      (host_region a_host (buffer_bytes N)) CL_SUCCESS,
                    EnqueueWriteBuffer commands b_device (buffer_bytes N)
                      (host_region b_host (buffer_bytes N)) CL_SUCCESS])"
proof -
  define err_a where
    "err_a = clEnqueueWriteBuffer P tr commands a_device (buffer_bytes N) (host_region a_host (buffer_bytes N))"
  define err_b where
    "err_b = clEnqueueWriteBuffer P
       (tr @ [EnqueueWriteBuffer commands a_device (buffer_bytes N)
                (host_region a_host (buffer_bytes N)) CL_SUCCESS])
       commands b_device (buffer_bytes N) (host_region b_host (buffer_bytes N))"
  show ?thesis
  proof (cases "err_a = CL_SUCCESS")
    case False
    with assms show ?thesis
      by (intro fail_a[of err_a]) (simp_all add: write_inputs_def Let_def err_a_def)
  next
    case a: True
    show ?thesis
    proof (cases "err_b = CL_SUCCESS")
      case False
      with a assms show ?thesis
        by (intro fail_b[of err_b]) (simp_all add: write_inputs_def Let_def err_a_def err_b_def)
    next
      case True
      with a assms show ?thesis
        by (intro ok) (simp add: write_inputs_def Let_def err_a_def err_b_def)
    qed
  qed
qed

lemma create_buffers_cases:
  assumes "R = create_buffers P c_host a_host b_host N device_id context commands program kern tr"
  obtains (fail) a_device b_device c_device where
      "a_device = NULL \<or> b_device = NULL \<or> c_device = NULL"
      "R = throw ''clCreateBuffer'' c_host
             (tr @ [CreateBuffer context CL_MEM_READ_ONLY (buffer_bytes N) a_device,
                    CreateBuffer context CL_MEM_READ_ONLY (buffer_bytes N) b_device,
                    CreateBuffer context CL_MEM_WRITE_ONLY (buffer_bytes N) c_device])"
    | (ok) a_device b_device c_device where
      "a_device \<noteq> NULL" "b_device \<noteq> NULL" "c_device \<noteq> NULL"
      "R = write_inputs P c_host a_host b_host N
             device_id context commands program kern a_device b_device c_device
             (tr @ [CreateBuffer context CL_MEM_READ_ONLY (buffer_bytes N) a_device,
                    CreateBuffer context CL_MEM_READ_ONLY (buffer_bytes N) b_device,
                    CreateBuffer context CL_MEM_WRITE_ONLY (buffer_bytes N) c_device])"
proof -
  define a_device where "a_device = clCreateBuffer P tr context CL_MEM_READ_ONLY (buffer_bytes N)"
  define b_device where
    "b_device = clCreateBuffer P (tr @ [CreateBuffer context CL_MEM_READ_ONLY (buffer_bytes N) a_device])
       context CL_MEM_READ_ONLY (buffer_bytes N)"
  define c_device where
    "c_device = clCreateBuffer P (tr @ [CreateBuffer context CL_MEM_READ_ONLY (buffer_bytes N) a_device,
          CreateBuffer context CL_MEM_READ_ONLY (buffer_bytes N) b_device])
       context CL_MEM_WRITE_ONLY (buffer_bytes N)"
  show ?thesis
  proof (cases "a_device = NULL \<or> b_device = NULL \<or> c_device = NULL")
    case True
    moreover from True assms have "R = throw ''clCreateBuffer'' c_host
             (tr @ [CreateBuffer context CL_MEM_READ_ONLY (buffer_bytes N) a_device,
                    CreateBuffer context CL_MEM_READ_ONLY (buffer_bytes N) b_device,
                    CreateBuffer context CL_MEM_WRITE_ONLY (buffer_bytes N) c_device])"
      by (simp add: create_buffers_def Let_def a_device_def b_device_def c_device_def)
    ultimately show ?thesis
      by (rule fail)
  next
    case False
    with assms show ?thesis
      by (intro ok[of a_device b_device c_device])
        (simp_all add: create_buffers_def Let_def a_device_def b_device_def c_device_def)
  qed
qed

lemma extract_kernel_cases:
  assumes "R = extract_kernel P c_host a_host b_host N device_id context commands program tr"
  obtains (fail) kern err where
      "kern = NULL \<or> err \<noteq> CL_SUCCESS"
      "R = throw ''clCreateKernel'' c_host (tr @ [CreateKernel program ''add'' kern err])"
    | (ok) kern where
      "kern \<noteq> NULL"
      "R = create_buffers P c_host a_host b_host N device_id context commands program kern
             (tr @ [CreateKernel program ''add'' kern CL_SUCCESS])"
proof -
  obtain kern err where r: "clCreateKernel P tr program ''add'' = (kern, err)"
    by force
  show ?thesis
  proof (cases "kern = NULL \<or> err \<noteq> CL_SUCCESS")
    case True
    moreover from True assms r
    have "R = throw ''clCreateKernel'' c_host (tr @ [CreateKernel program ''add'' kern err])"
      by (simp add: extract_kernel_def)
    ultimately show ?thesis
      by (rule fail)
  next
    case False
    with assms r show ?thesis
      by (intro ok[of kern]) (simp_all add: extract_kernel_def)
  qed
qed

lemma build_program_cases:
  assumes "R = build_program P c_host a_host b_host N device_id context commands program tr"
  obtains (fail) err where
      "err \<noteq> CL_SUCCESS"
      "R = throw ''clBuildProgram'' c_host (tr @ [BuildProgram program err])"
    | (ok)
      "R = extract_kernel P c_host a_host b_host N device_id context commands program
             (tr @ [BuildProgram program CL_SUCCESS])"
proof (cases "clBuildProgram P tr program = CL_SUCCESS")
  case True
  with assms show ?thesis
    by (intro ok) (simp add: build_program_def Let_def)
next
  case False
  with assms show ?thesis
    by (intro fail[of "clBuildProgram P tr program"]) (simp_all add: build_program_def Let_def)
qed

lemma create_program_cases:
  assumes "R = create_program P c_host a_host b_host N device_id context commands tr"
  obtains (fail) source err where
      "R = throw ''clCreateProgramWithSource'' c_host
             (tr @ [ReadSourceFile ''opencl_example.cl'' source,
                    CreateProgramWithSource context source NULL err])"
    | (ok) source program err where
      "program \<noteq> NULL"
      "R = build_program P c_host a_host b_host N device_id context commands program
             (tr @ [ReadSourceFile ''opencl_example.cl'' source,
                    CreateProgramWithSource context source program err])"
proof -
  define source where "source = read_source_file P tr ''opencl_example.cl''"
  obtain program err where
    r: "clCreateProgramWithSource P (tr @ [ReadSourceFile ''opencl_example.cl'' source]) context source
          = (program, err)"
    by force
  show ?thesis
  proof (cases "program = NULL")
    case True
    with assms r show ?thesis
      by (intro fail[of source err]) (simp add: create_program_def Let_def source_def)
  next
    case False
    with assms r show ?thesis
      by (intro ok[of program source err]) (simp_all add: create_program_def Let_def source_def)
  qed
qed

lemma create_command_queue_cases:
  assumes "R = create_command_queue P c_host a_host b_host N device_id context tr"
  obtains (fail) err where
      "R = throw ''clCreateCommandQueue'' c_host (tr @ [CreateCommandQueue context device_id NULL err])"
    | (ok) commands err where
      "commands \<noteq> NULL"
      "R = create_program P c_host a_host b_host N device_id context commands
             (tr @ [CreateCommandQueue context device_id commands err])"
proof -
  obtain commands err where r: "clCreateCommandQueue P tr context device_id = (commands, err)"
    by force
  show ?thesis
  proof (cases "commands = NULL")
    case True
    with assms r show ?thesis
      by (intro fail[of err]) (simp add: create_command_queue_def)
  next
    case False
    with assms r show ?thesis
      by (intro ok[of commands err]) (simp_all add: create_command_queue_def)
  qed
qed

lemma add_opencl_cases:
  assumes "R = add_opencl P use_gpu c_host a_host b_host N"
  obtains (no_device) err device_id where
      "err \<noteq> CL_SUCCESS"
      "R = throw ''clGetDeviceIDs'' c_host
             [GetDeviceIDs (if use_gpu then CL_DEVICE_TYPE_GPU else CL_DEVICE_TYPE_CPU) err device_id]"
    | (no_context) device_id err where
      "R = throw ''clCreateContext'' c_host
             [GetDeviceIDs (if use_gpu then CL_DEVICE_TYPE_GPU else CL_DEVICE_TYPE_CPU) CL_SUCCESS device_id,
              CreateContext device_id NULL err]"
    | (ok) device_id ctx err where
      "ctx \<noteq> NULL"
      "R = create_command_queue P c_host a_host b_host N device_id ctx
             [GetDeviceIDs (if use_gpu then CL_DEVICE_TYPE_GPU else CL_DEVICE_TYPE_CPU) CL_SUCCESS device_id,
              CreateContext device_id ctx err]"
proof -
  define ty where "ty = (if use_gpu then CL_DEVICE_TYPE_GPU else CL_DEVICE_TYPE_CPU)"
  obtain err device_id where r: "clGetDeviceIDs P [] ty = (err, device_id)"
    by force
  obtain ctx err' where r': "clCreateContext P [GetDeviceIDs ty CL_SUCCESS device_id] device_id = (ctx, err')"
    by force
  show ?thesis
  proof (cases "err = CL_SUCCESS")
    case False
    with assms r show ?thesis
      by (intro no_device[of err device_id]) (simp_all add: add_opencl_def ty_def)
  next
    case d: True
    show ?thesis
    proof (cases "ctx = NULL")
      case True
      with d assms r r' show ?thesis
        by (intro no_context[of device_id err']) (simp add: add_opencl_def ty_def)
    next
      case False
      with d assms r r' show ?thesis
        by (intro ok[of ctx device_id err']) (simp_all add: add_opencl_def ty_def)
    qed
  qed
qed

lemmas stage_cases =
  add_opencl_cases create_command_queue_cases create_program_cases build_program_cases
  extract_kernel_cases create_buffers_cases write_inputs_cases set_kernel_args_cases
  get_work_group_size_cases execute_kernel_cases read_output_cases validate_output_cases


section \<open>The example runs, evaluated\<close>

lemmas run_defs =
  add_opencl_def create_command_queue_def create_program_def build_program_def
  extract_kernel_def create_buffers_def write_inputs_def set_kernel_args_def
  get_work_group_size_def execute_kernel_def read_output_def validate_output_def
  release_resources_def Let_def throw_def
  buffer_bytes_def size_t_of_int_def sizeof_int_def host_region_def copy_to_host_def
  validation_loop.simps upt_rec
  Timer_new_def start_def stop_def elapsed_def now_def
  device_sum_def A0_def B0_def C0_def

lemma working_run_outcome: "outcome working_run = Inr 3"
  by (simp add: run_defs working_platform_def)

lemma working_gpu_run_outcome: "outcome working_gpu_run = Inr 3"
  by (simp add: run_defs working_platform_def)

lemma working_run_calls:
  "calls working_run =
     [GetDeviceIDs CL_DEVICE_TYPE_CPU CL_SUCCESS 1,
      CreateContext 1 11 CL_SUCCESS, CreateCommandQueue 11 1 12 CL_SUCCESS,
      ReadSourceFile ''opencl_example.cl'' ''kernel'',
      CreateProgramWithSource 11 ''kernel'' 14 CL_SUCCESS,
      BuildProgram 14 CL_SUCCESS, CreateKernel 14 ''add'' 16 CL_SUCCESS,
      CreateBuffer 11 CL_MEM_READ_ONLY 16 17, CreateBuffer 11 CL_MEM_READ_ONLY 16 18,
      CreateBuffer 11 CL_MEM_WRITE_ONLY 16 19,
      EnqueueWriteBuffer 12 17 16 [0, 1, 2, 3] CL_SUCCESS,
      EnqueueWriteBuffer 12 18 16 [0, 2, 4, 6] CL_SUCCESS,
      SetKernelArg 16 0 19 CL_SUCCESS, SetKernelArg 16 1 17 CL_SUCCESS,
      SetKernelArg 16 2 18 CL_SUCCESS, GetKernelWorkGroupInfo 16 1 CL_SUCCESS 1,
      Gettimeofday \<lparr>tv_sec = 16, tv_usec = 0\<rparr>,
      EnqueueNDRangeKernel 12 16 4 1 CL_SUCCESS, Finish 12 CL_SUCCESS,
      Gettimeofday \<lparr>tv_sec = 19, tv_usec = 0\<rparr>,
      EnqueueReadBuffer 12 19 16 CL_SUCCESS [0, 3, 6, 9],
      ReleaseMemObject 17 CL_SUCCESS, ReleaseMemObject 18 CL_SUCCESS,
      ReleaseMemObject 19 CL_SUCCESS, ReleaseProgram 14 CL_SUCCESS,
      ReleaseKernel 16 CL_SUCCESS, ReleaseCommandQueue 12 CL_SUCCESS,
      ReleaseContext 11 CL_SUCCESS]"
  by (simp add: run_defs working_platform_def)

lemma broken_source_run_eq:
  "broken_source_run =
     throw ''clBuildProgram'' C0
      [GetDeviceIDs CL_DEVICE_TYPE_CPU CL_SUCCESS 1,
       CreateContext 1 11 CL_SUCCESS, CreateCommandQueue 11 1 12 CL_SUCCESS,
       ReadSourceFile ''opencl_example.cl'' ''kernel'',
       CreateProgramWithSource 11 ''kernel'' 14 CL_SUCCESS,
       BuildProgram 14 (- 11)]"
  by (simp add: add_opencl_def create_command_queue_def create_program_def build_program_def
      Let_def broken_source_platform_def working_platform_def)




lemma failing_release_run_outcome: "outcome failing_release_run = Inr 3"
  by (simp add: run_defs failing_release_platform_def working_platform_def)

lemma failing_release_run_release:
  "filter (\<lambda>ev. release_status ev \<noteq> CL_SUCCESS) (calls failing_release_run) =
     [ReleaseContext 11 (- 5)]"
  by (simp add: run_defs failing_release_platform_def working_platform_def)

lemma failing_finish_run_outcome: "outcome failing_finish_run = Inr 3"
  by (simp add: run_defs failing_finish_platform_def working_platform_def)

lemma failing_finish_run_wait:
  "filter (\<lambda>ev. finish_status ev \<noteq> CL_SUCCESS) (calls failing_finish_run) = [Finish 12 (- 5)]"
  by (simp add: run_defs failing_finish_platform_def working_platform_def)


section \<open>Properties of add\_opencl\<close>

lemma size_t_of_int_sint:
  "0 \<le> sint (N :: 32 word) \<Longrightarrow> size_t_of_int (sint N) = nat (sint N)"
proof -
  assume nonneg: "0 \<le> sint N"
  have "sint N < 2 ^ (LENGTH(32) - 1)"
    by (rule sint_lt)
  then have "sint N < 2 ^ 64"
    by simp
  with nonneg show ?thesis
    by (simp add: size_t_of_int_def)
qed



text \<open>A transfer never covers more elements than the validation loop visits.\<close>

lemma buffer_elements_le:
  "buffer_bytes N div sizeof_int \<le> size_t_of_int (sint N)"
proof -
  have "(4 * size_t_of_int (sint N)) mod 2 ^ 64 \<le> 4 * size_t_of_int (sint N)"
    by (rule mod_less_eq_dividend)
  then have "(4 * size_t_of_int (sint N)) mod 2 ^ 64 div 4 \<le> size_t_of_int (sint N)"
    by simp
  then show ?thesis
    by (simp add: buffer_bytes_def sizeof_int_def)
qed

lemma validated_copy:
  assumes "\<forall>i < size_t_of_int (sint N). copy_to_host c (buffer_bytes N) device i = a i + b i"
  shows "copy_to_host c (buffer_bytes N) device =
           (\<lambda>i. if i < size_t_of_int (sint N) then a i + b i else c i)"
proof
  fix i
  show "copy_to_host c (buffer_bytes N) device i =
          (if i < size_t_of_int (sint N) then a i + b i else c i)"
  proof (cases "i < size_t_of_int (sint N)")
    case True
    with assms show ?thesis by simp
  next
    case False
    with buffer_elements_le[of N] have "\<not> i < buffer_bytes N div sizeof_int"
      by simp
    with False show ?thesis
      by (simp add: copy_to_host_def)
  qed
qed

text \<open>
  The output array of a run that returns: the sums in the first \<open>N\<close> elements, and the
  caller's values behind them.
\<close>

lemma success_output:
  assumes "R = add_opencl P use_gpu c_host a_host b_host N" "outcome R = Inr t"
  shows "c_host_out R = (\<lambda>i. if i < size_t_of_int (sint N) then a_host i + b_host i else c_host i)"
  using assms by (elim stage_cases) (simp_all add: throw_def validated_copy)

text \<open>
  C1. When \<^verbatim>\<open>add_opencl\<close> returns, every element of the output array below \<open>N\<close> is the
  sum of the two input elements: a mismatch makes the validation loop throw instead.
  An index below \<open>N\<close> exists only for \<open>N \<ge> 1\<close>.
\<close>

theorem add_opencl_output_is_sum:
  assumes "outcome (add_opencl P use_gpu c_host a_host b_host N) = Inr t" "int i < sint N"
  shows "c_host_out (add_opencl P use_gpu c_host a_host b_host N) i = a_host i + b_host i"
proof -
  from assms(2) have "0 \<le> sint N" by simp
  then have "size_t_of_int (sint N) = nat (sint N)"
    by (rule size_t_of_int_sint)
  with assms(2) have "i < size_t_of_int (sint N)" by simp
  with success_output[OF refl assms(1)] show ?thesis by simp
qed

theorem add_opencl_output_is_sum_witness:
  "outcome working_run = Inr 3 \<and> int 3 < sint (4 :: 32 word) \<and>
   c_host_out working_run 0 = 0 \<and> c_host_out working_run 1 = 3 \<and>
   c_host_out working_run 2 = 6 \<and> c_host_out working_run 3 = 9"
proof -
  note run = working_run_outcome
  have "c_host_out working_run 0 = A0 0 + B0 0" "c_host_out working_run 1 = A0 1 + B0 1"
    "c_host_out working_run 2 = A0 2 + B0 2" "c_host_out working_run 3 = A0 3 + B0 3"
    by (rule add_opencl_output_is_sum[OF run], simp)+
  with run show ?thesis
    by (simp add: A0_def B0_def)
qed

text \<open>
  C2. When \<^verbatim>\<open>clBuildProgram\<close> reports a status other than \<^verbatim>\<open>CL_SUCCESS\<close>, the
  procedure throws the failure of the compilation step (its message is the name
  \<^verbatim>\<open>clBuildProgram\<close>), the build is the last call made, no buffer was created and nothing
  was copied to or from the device, and the caller's output array is as it was.
\<close>

theorem build_failure_aborts_before_transfers:
  assumes "R = add_opencl P use_gpu c_host a_host b_host N"
    and "BuildProgram program err \<in> set (calls R)" and "err \<noteq> CL_SUCCESS"
  shows "outcome R = Inl (Runtime_error ''clBuildProgram'') \<and> c_host_out R = c_host \<and>
         (\<forall>ev \<in> set (calls R). \<not> is_transfer ev \<and> \<not> is_buffer_creation ev) \<and>
         last (calls R) = BuildProgram program err"
  using assms by (elim stage_cases) (simp_all add: throw_def)

theorem build_failure_aborts_before_transfers_witness:
  "BuildProgram 14 (- 11) \<in> set (calls broken_source_run) \<and> (- 11 :: cl_int) \<noteq> CL_SUCCESS \<and>
   outcome broken_source_run = Inl (Runtime_error ''clBuildProgram'') \<and>
   c_host_out broken_source_run = C0 \<and>
   filter is_transfer (calls broken_source_run) = [] \<and>
   filter is_buffer_creation (calls broken_source_run) = [] \<and>
   last (calls broken_source_run) = BuildProgram 14 (- 11)"
proof -
  have mem: "BuildProgram 14 (- 11) \<in> set (calls broken_source_run)"
    by (simp add: broken_source_run_eq throw_def)
  have ne: "(- 11 :: cl_int) \<noteq> CL_SUCCESS"
    by simp
  have facts: "filter is_transfer (calls broken_source_run) = []"
    "filter is_buffer_creation (calls broken_source_run) = []"
    by (simp_all add: broken_source_run_eq throw_def)
  from build_failure_aborts_before_transfers[OF refl mem ne] mem ne facts show ?thesis
    by blast
qed

text \<open>
  C3, as the code has it. A call of the trace whose result the procedure inspects and
  finds failed makes the procedure throw the runtime error named after that API
  function, and the last call of the trace is a call of that function: nothing of a
  later step is called. If the procedure throws, either such a call is in the trace or
  the validation loop found an element that is not the sum. The device is asked for
  once, with the class the caller chose. The values returned by the release calls are
  not inspected: a release that reports a failure is part of a run that returns.
\<close>

theorem inspected_failures_abort:
  assumes "R = add_opencl P use_gpu c_host a_host b_host N"
  shows "(\<forall>ev \<in> set (calls R). \<forall>msg. inspected_failure ev = Some msg \<longrightarrow>
            outcome R = Inl (Runtime_error msg) \<and> api_name (last (calls R)) = msg) \<and>
         (\<forall>e. outcome R = Inl e \<longrightarrow>
            (\<exists>ev \<in> set (calls R). inspected_failure ev \<noteq> None \<and> e = Runtime_error (api_name ev)) \<or>
            (e = Runtime_error ''Result validation failed'' \<and>
             (\<exists>i < size_t_of_int (sint N). c_host_out R i \<noteq> a_host i + b_host i))) \<and>
         (\<exists>err d. filter is_device_query (calls R) =
            [GetDeviceIDs (if use_gpu then CL_DEVICE_TYPE_GPU else CL_DEVICE_TYPE_CPU) err d]) \<and>
         (\<forall>ev \<in> set (calls R). release_status ev \<noteq> CL_SUCCESS \<longrightarrow> (\<exists>t. outcome R = Inr t))"
  using assms by (elim stage_cases; simp add: throw_def; blast)

theorem inspected_failures_abort_witness:
  "BuildProgram 14 (- 11) \<in> set (calls broken_source_run) \<and>
   inspected_failure (BuildProgram 14 (- 11)) = Some ''clBuildProgram'' \<and>
   outcome broken_source_run = Inl (Runtime_error ''clBuildProgram'') \<and>
   api_name (last (calls broken_source_run)) = ''clBuildProgram'' \<and>
   filter is_device_query (calls broken_source_run) = [GetDeviceIDs CL_DEVICE_TYPE_CPU CL_SUCCESS 1] \<and>
   filter (\<lambda>ev. release_status ev \<noteq> CL_SUCCESS) (calls failing_release_run) =
     [ReleaseContext 11 (- 5)] \<and>
   outcome failing_release_run = Inr 3"
proof -
  have broken: "BuildProgram 14 (- 11) \<in> set (calls broken_source_run)"
    "inspected_failure (BuildProgram 14 (- 11)) = Some ''clBuildProgram''"
    "outcome broken_source_run = Inl (Runtime_error ''clBuildProgram'')"
    "api_name (last (calls broken_source_run)) = ''clBuildProgram''"
    "filter is_device_query (calls broken_source_run) = [GetDeviceIDs CL_DEVICE_TYPE_CPU CL_SUCCESS 1]"
    by (simp_all add: broken_source_run_eq throw_def)
  from inspected_failures_abort[OF refl, of broken_source_platform False C0 A0 B0 4]
    inspected_failures_abort[OF refl, of failing_release_platform False C0 A0 B0 4]
    broken failing_release_run_release failing_release_run_outcome
  show ?thesis
    by blast
qed

text \<open>
  C3, as the claim has it, fails on the release step: on a device that works except
  that releasing the context reports \<^verbatim>\<open>CL_OUT_OF_RESOURCES\<close>, the API reports a
  non-success status at the last step and \<^verbatim>\<open>add_opencl\<close> returns the elapsed time.
\<close>

theorem release_failure_does_not_abort:
  "filter (\<lambda>ev. release_status ev \<noteq> CL_SUCCESS) (calls failing_release_run) =
     [ReleaseContext 11 (- 5)] \<and>
   outcome failing_release_run = Inr 3"
  by (simp add: failing_release_run_release failing_release_run_outcome)

text \<open>
  The value returned by \<^verbatim>\<open>clFinish\<close> is dropped as well: on a device whose wait for
  completion reports \<^verbatim>\<open>CL_OUT_OF_RESOURCES\<close> the procedure goes on and returns.
\<close>

lemma wait_status_is_dropped:
  "filter (\<lambda>ev. finish_status ev \<noteq> CL_SUCCESS) (calls failing_finish_run) = [Finish 12 (- 5)] \<and>
   outcome failing_finish_run = Inr 3"
  by (simp add: failing_finish_run_wait failing_finish_run_outcome)

text \<open>
  C5. A run for the CPU class and a run for the GPU class on the same arrays and length
  that both return leave the same output array (whatever the two devices are).
\<close>

theorem device_class_does_not_change_output:
  assumes "outcome (add_opencl P False c_host a_host b_host N) = Inr t_cpu"
    and "outcome (add_opencl P' True c_host a_host b_host N) = Inr t_gpu"
  shows "c_host_out (add_opencl P False c_host a_host b_host N) =
         c_host_out (add_opencl P' True c_host a_host b_host N)"
  using success_output[OF refl assms(1)] success_output[OF refl assms(2)] by simp

theorem device_class_does_not_change_output_witness:
  "outcome working_run = Inr 3 \<and> outcome working_gpu_run = Inr 3 \<and>
   c_host_out working_run = c_host_out working_gpu_run"
  using device_class_does_not_change_output[OF working_run_outcome working_gpu_run_outcome]
    working_run_outcome working_gpu_run_outcome
  by blast

lemma copy_to_host_region:
  "map (copy_to_host c bytes device) [0..<bytes div sizeof_int] = map device [0..<bytes div sizeof_int]"
  by (simp add: copy_to_host_def)

text \<open>
  C6. In a run that returns, the trace reads the clock twice. Before the first reading
  come the sixteen calls of the set-up, among them the build and the two writes of the
  input arrays; between the two readings come the dispatch and the wait, and nothing
  else; after the second reading come the read-back and the releases, and the elements
  that the validation loop has checked are the ones this read-back delivered. The
  value returned is the second reading minus the first.
\<close>

theorem elapsed_time_brackets_dispatch_and_wait:
  assumes "R = add_opencl P use_gpu c_host a_host b_host N" "outcome R = Inr t"
  shows "\<exists>tv1 q k g l st tv2 m n elements releases.
      dropWhile (\<lambda>ev. \<not> is_clock_read ev) (calls R) =
        Gettimeofday tv1 # EnqueueNDRangeKernel q k g l CL_SUCCESS # Finish q st #
        Gettimeofday tv2 # EnqueueReadBuffer q m n CL_SUCCESS elements # releases \<and>
      tv1 = gettimeofday P (takeWhile (\<lambda>ev. \<not> is_clock_read ev) (calls R)) \<and>
      tv2 = gettimeofday P (takeWhile (\<lambda>ev. \<not> is_clock_read ev) (calls R) @
              [Gettimeofday tv1, EnqueueNDRangeKernel q k g l CL_SUCCESS, Finish q st]) \<and>
      t = now tv2 - now tv1 \<and>
      map api_name (takeWhile (\<lambda>ev. \<not> is_clock_read ev) (calls R)) =
        [''clGetDeviceIDs'', ''clCreateContext'', ''clCreateCommandQueue'', ''ifstream'',
         ''clCreateProgramWithSource'', ''clBuildProgram'', ''clCreateKernel'',
         ''clCreateBuffer'', ''clCreateBuffer'', ''clCreateBuffer'',
         ''clEnqueueWriteBuffer'', ''clEnqueueWriteBuffer'',
         ''clSetKernelArg'', ''clSetKernelArg'', ''clSetKernelArg'', ''clGetKernelWorkGroupInfo''] \<and>
      map (c_host_out R) [0..<length elements] = elements \<and>
      map api_name releases =
        [''clReleaseMemObject'', ''clReleaseMemObject'', ''clReleaseMemObject'',
         ''clReleaseProgram'', ''clReleaseKernel'', ''clReleaseCommandQueue'',
         ''clReleaseContext'']"
  using assms
  by (elim stage_cases)
     (simp_all add: throw_def elapsed_def start_def stop_def Timer_new_def copy_to_host_region)

theorem elapsed_time_brackets_dispatch_and_wait_witness:
  "outcome working_run = Inr 3 \<and>
   take 5 (dropWhile (\<lambda>ev. \<not> is_clock_read ev) (calls working_run)) =
     [Gettimeofday \<lparr>tv_sec = 16, tv_usec = 0\<rparr>, EnqueueNDRangeKernel 12 16 4 1 CL_SUCCESS,
      Finish 12 CL_SUCCESS, Gettimeofday \<lparr>tv_sec = 19, tv_usec = 0\<rparr>,
      EnqueueReadBuffer 12 19 16 CL_SUCCESS [0, 3, 6, 9]] \<and>
   now \<lparr>tv_sec = 19, tv_usec = 0\<rparr> - now \<lparr>tv_sec = 16, tv_usec = 0\<rparr> = 3"
proof -
  have bracket: "take 5 (dropWhile (\<lambda>ev. \<not> is_clock_read ev) (calls working_run)) =
     [Gettimeofday \<lparr>tv_sec = 16, tv_usec = 0\<rparr>, EnqueueNDRangeKernel 12 16 4 1 CL_SUCCESS,
      Finish 12 CL_SUCCESS, Gettimeofday \<lparr>tv_sec = 19, tv_usec = 0\<rparr>,
      EnqueueReadBuffer 12 19 16 CL_SUCCESS [0, 3, 6, 9]]"
    by (simp add: working_run_calls)
  have diff: "now \<lparr>tv_sec = 19, tv_usec = 0\<rparr> - now \<lparr>tv_sec = 16, tv_usec = 0\<rparr> = 3"
    by (simp add: now_def)
  from elapsed_time_brackets_dispatch_and_wait[OF refl working_run_outcome]
    working_run_outcome bracket diff
  show ?thesis
    by blast
qed

text \<open>
  C7. A run that returns has acquired a context, a command queue, a program, a kernel
  and three buffers, and has released these seven, buffers first; a run that throws has
  released nothing, whatever it had acquired.
\<close>

theorem resources_released_on_success_only:
  assumes "R = add_opencl P use_gpu c_host a_host b_host N"
  shows "(\<forall>t. outcome R = Inr t \<longrightarrow>
            (\<exists>x q p k a b c.
               acquired (calls R) = [Context x, Queue q, Program p, Kernel k, Mem a, Mem b, Mem c] \<and>
               released (calls R) = [Mem a, Mem b, Mem c, Program p, Kernel k, Queue q, Context x])) \<and>
         (\<forall>e. outcome R = Inl e \<longrightarrow> released (calls R) = [])"
  using assms by (elim stage_cases) (simp_all add: throw_def)

theorem resources_released_on_success_only_witness:
  "outcome working_run = Inr 3 \<and>
   acquired (calls working_run) =
     [Context 11, Queue 12, Program 14, Kernel 16, Mem 17, Mem 18, Mem 19] \<and>
   released (calls working_run) =
     [Mem 17, Mem 18, Mem 19, Program 14, Kernel 16, Queue 12, Context 11] \<and>
   outcome broken_source_run = Inl (Runtime_error ''clBuildProgram'') \<and>
   acquired (calls broken_source_run) = [Context 11, Queue 12, Program 14] \<and>
   released (calls broken_source_run) = []"
proof -
  have facts: "outcome working_run = Inr 3"
    "acquired (calls working_run) =
       [Context 11, Queue 12, Program 14, Kernel 16, Mem 17, Mem 18, Mem 19]"
    "released (calls working_run) =
       [Mem 17, Mem 18, Mem 19, Program 14, Kernel 16, Queue 12, Context 11]"
    "outcome broken_source_run = Inl (Runtime_error ''clBuildProgram'')"
    "acquired (calls broken_source_run) = [Context 11, Queue 12, Program 14]"
    "released (calls broken_source_run) = []"
    by (simp_all add: working_run_outcome working_run_calls broken_source_run_eq throw_def)
  from resources_released_on_success_only[OF refl, of working_platform False C0 A0 B0 4]
    resources_released_on_success_only[OF refl, of broken_source_platform False C0 A0 B0 4]
    facts
  show ?thesis
    by blast
qed




section \<open>Properties of the command line\<close>

text \<open>The loop keeps the last of the options \<^verbatim>\<open>c\<close> and \<^verbatim>\<open>g\<close> and passes over the others.\<close>

lemma option_loop_append:
  "option_loop (os @ os') use_gpu = option_loop os' (option_loop os use_gpu)"
  by (induction os arbitrary: use_gpu) simp_all

lemma option_loop_last_wins:
  "option_loop (os @ [CHR ''g'']) use_gpu = True" "option_loop (os @ [CHR ''c'']) use_gpu = False"
  by (simp_all add: option_loop_append)

lemma option_loop_other:
  "opt \<noteq> CHR ''c'' \<Longrightarrow> opt \<noteq> CHR ''g'' \<Longrightarrow> option_loop (opt # os) use_gpu = option_loop os use_gpu"
  by simp

lemma parse_command_line_examples:
  "parse_command_line [''opencl_example''] = Inr False"
  "parse_command_line [''opencl_example'', ''--use-gpu''] = Inr True"
  "parse_command_line [''opencl_example'', ''-g'', ''--use-cpu''] = Inr False"
  "parse_command_line [''opencl_example'', ''-c'', ''-g''] = Inr True"
  "parse_command_line [''opencl_example'', ''-x'', ''-g''] = Inr True"
  by (simp_all add: parse_command_line_def longopts_def)

text \<open>
  C8. The default, the two flags in their short and long forms and the rule that the
  last one wins hold as the examples above show, and an unknown short flag is passed
  over. An unknown long flag is not: the option table of \<^verbatim>\<open>main\<close> has no element of
  zeros at its end, so the search for a name that is not in the table runs past the
  two elements of the array.
\<close>

theorem unknown_long_flag_overruns_option_table:
  "parse_command_line [''opencl_example'', ''--bogus''] = Inl Longopts_overrun \<and>
   main P c [''opencl_example'', ''--bogus''] = Inl Longopts_overrun \<and>
   parse_command_line [''opencl_example'', ''-b''] = Inr False"
  by (simp add: main_def parse_command_line_def longopts_def)

end
